theory Spec2Isabelle
  imports Complex_Main
begin

section \<open>Values of the program\<close>

text \<open>
  The server of \<^verbatim>\<open>server.js\<close> is a set of request handlers and one scheduled job over
  three outside services: the subscriber collection (mongoose), the weather provider
  (axios) and the SMS provider (twilio).  The model below passes the state of these
  services explicitly, returns every thrown exception as a value, and takes what the
  outside world answers as a parameter (the record \<open>env\<close>).
\<close>

subsection \<open>JSON payloads\<close>

text \<open>
  The weather payload is \<^verbatim>\<open>response.data\<close>, whatever JSON the provider sent.  The code
  reads it field by field without checking its shape, so the model keeps it untyped.
  A number is kept by its value; the code only tests numbers for truthiness and copies
  them.  \<open>JObj\<close> lists the own properties of an object, a lookup takes the first
  binding of a key.
\<close>

datatype json =
    JUndefined
  | JNull
  | JBool bool
  | JNum rat
  | JStr string
  | JArr "json list"
  | JObj "(string \<times> json) list"

datatype error =
    UpstreamError    \<comment> \<open>\<^verbatim>\<open>new Error('Failed to fetch weather data')\<close>, thrown by fetchWeatherData\<close>
  | TypeError        \<comment> \<open>a property read on undefined or null, a call of a non-function\<close>
  | DeliveryError    \<comment> \<open>\<^verbatim>\<open>twilioClient.messages.create\<close> rejected\<close>
  | DuplicateError   \<comment> \<open>the unique index on phoneNumber rejected a save\<close>

text \<open>JavaScript truthiness of a JSON value: \<^verbatim>\<open>!v\<close> is \<open>\<not> truthy v\<close>.\<close>

fun truthy :: "json \<Rightarrow> bool" where
  "truthy JUndefined = False"
| "truthy JNull = False"
| "truthy (JBool b) = b"
| "truthy (JNum n) = (n \<noteq> 0)"
| "truthy (JStr s) = (s \<noteq> [])"
| "truthy (JArr xs) = True"
| "truthy (JObj kvs) = True"

text \<open>
  \<^verbatim>\<open>v.key\<close> for the keys the code reads (errorCode, resolvedAddress, currentConditions,
  days, hours, temp, ...).  None of them is an inherited property of a number, a string,
  a boolean or an array, so the read gives undefined there; on undefined and null the
  read throws.
\<close>

fun getProp :: "json \<Rightarrow> string \<Rightarrow> error + json" where
  "getProp JUndefined k = Inl TypeError"
| "getProp JNull k = Inl TypeError"
| "getProp (JObj kvs) k = Inr (case map_of kvs k of None \<Rightarrow> JUndefined | Some v \<Rightarrow> v)"
| "getProp v k = Inr JUndefined"

text \<open>Sequencing of steps that may throw: the first exception ends the evaluation.\<close>

fun bnd :: "error + 'a \<Rightarrow> ('a \<Rightarrow> error + 'b) \<Rightarrow> error + 'b" where
  "bnd (Inl e) f = Inl e"
| "bnd (Inr x) f = f x"

subsection \<open>Conversions\<close>

text \<open>
  A value inside a template literal is converted to a string.  A primitive converts
  without error.  An array is joined with commas, undefined and null elements giving the
  empty string.  A plain object prints as \<^verbatim>\<open>[object Object]\<close> through the inherited
  \<^verbatim>\<open>toString\<close>; when the object has an own key \<^verbatim>\<open>toString\<close> its value, coming from
  JSON, is not a function, the inherited \<^verbatim>\<open>valueOf\<close> gives the object back, and the
  conversion throws.  The first argument prints a number.
\<close>

fun join_comma :: "string list \<Rightarrow> string" where
  "join_comma [] = []"
| "join_comma [x] = x"
| "join_comma (x # y # ys) = x @ '','' @ join_comma (y # ys)"

fun toStr :: "(rat \<Rightarrow> string) \<Rightarrow> json \<Rightarrow> error + string"
  and toStr_elements :: "(rat \<Rightarrow> string) \<Rightarrow> json list \<Rightarrow> error + string list" where
  "toStr f JUndefined = Inr ''undefined''"
| "toStr f JNull = Inr ''null''"
| "toStr f (JBool b) = Inr (if b then ''true'' else ''false'')"
| "toStr f (JNum n) = Inr (f n)"
| "toStr f (JStr s) = Inr s"
| "toStr f (JArr xs) = bnd (toStr_elements f xs) (\<lambda>ss. Inr (join_comma ss))"
| "toStr f (JObj kvs) =
     (if map_of kvs ''toString'' = None then Inr ''[object Object]'' else Inl TypeError)"
| "toStr_elements f [] = Inr []"
| "toStr_elements f (x # xs) =
     bnd (if x = JUndefined \<or> x = JNull then Inr [] else toStr f x) (\<lambda>s.
     bnd (toStr_elements f xs) (\<lambda>ss. Inr (s # ss)))"

subsection \<open>Request fields\<close>

text \<open>
  A field of \<^verbatim>\<open>req.body\<close> or \<^verbatim>\<open>req.query\<close> is \<open>None\<close> when the key is absent and
  the string sent otherwise.  \<open>falsy\<close> is the test \<^verbatim>\<open>!field\<close>: an absent field and the
  empty string are falsy.  \<open>interp\<close> is the field inside a template literal.
\<close>

fun falsy :: "string option \<Rightarrow> bool" where
  "falsy None = True"
| "falsy (Some s) = (s = [])"

fun interp :: "string option \<Rightarrow> string" where
  "interp None = ''undefined''"
| "interp (Some s) = s"

definition isDigit :: "char \<Rightarrow> bool" where
  "isDigit c = (c \<in> set ''0123456789'')"

text \<open>\<^verbatim>\<open>/^\d{10}$/.test(s)\<close>: no flag is set, so the whole string is ten ASCII digits.\<close>

definition test_10_digits :: "string \<Rightarrow> bool" where
  "test_10_digits s = (length s = 10 \<and> list_all isDigit s)"

section \<open>The outside services\<close>

record subscriber =
  phoneNumber :: string
  district :: string
  city :: string
  createdAt :: int

record sms =
  sms_body :: string
  sms_from :: "string option"
  sms_to :: string

datatype axios_result =
    AxiosResponse json   \<comment> \<open>a 2xx response; the argument is \<^verbatim>\<open>response.data\<close>\<close>
  | AxiosFailure         \<comment> \<open>network failure or a non-2xx status: axios.get rejects\<close>

datatype log_entry =
    LogStarting                  \<comment> \<open>Starting hourly alert job...\<close>
  | LogSent string               \<comment> \<open>Sent alert to <phone>\<close>
  | LogFailed string error       \<comment> \<open>Failed to send alert to <phone>: <error>\<close>
  | LogCompleted nat             \<comment> \<open>Completed sending <n> alerts\<close>
  | LogJobError error            \<comment> \<open>Error in hourly alert job: <error>\<close>
  | LogFetchError                \<comment> \<open>Error fetching weather data: ...\<close>
  | LogHandlerError string error \<comment> \<open>Error in <route>: <error>\<close>

text \<open>
  What the world answers.  The answer of the weather provider and of the SMS provider may
  change from one call to the next, so both are indexed by the number of calls made
  before.  \<open>Number_toString\<close> is the decimal text JavaScript prints for a number;
  \<open>hour_label\<close> and \<open>date_label\<close> are the locale-dependent
  \<^verbatim>\<open>new Date(epoch * 1000).toLocaleTimeString([], { hour: '2-digit' })\<close> and
  \<^verbatim>\<open>new Date(epoch * 1000).toLocaleDateString('en-IN', ...)\<close> as functions of the
  value of \<^verbatim>\<open>datetimeEpoch\<close>.
\<close>

record env =
  axios_get :: "nat \<Rightarrow> string \<Rightarrow> axios_result"
  twilio_create :: "nat \<Rightarrow> sms \<Rightarrow> bool"
  NODE_ENV :: "string option"
  TWILIO_PHONE_NUMBER :: "string option"
  Date_now :: int
  Number_toString :: "rat \<Rightarrow> string"
  hour_label :: "json \<Rightarrow> string"
  date_label :: "json \<Rightarrow> string"

text \<open>
  The operand of \<^verbatim>\<open>*\<close> is converted to a number.  A primitive converts without error
  (possibly to NaN).  An object or an array is first made primitive: the inherited
  \<^verbatim>\<open>valueOf\<close> gives the object back, so the conversion goes on to \<^verbatim>\<open>toString\<close> and
  throws exactly when the conversion to a string throws.  The number itself is not
  computed here: the labels are functions of the operand.
\<close>

definition toNumber :: "env \<Rightarrow> json \<Rightarrow> error + json" where
  "toNumber e v = bnd (toStr (Number_toString e) v) (\<lambda>s. Inr v)"

text \<open>
  The state: the subscriber collection in insertion order, the locations requested from
  the weather provider, the messages handed to the SMS provider, and the console.
\<close>

record state =
  store :: "subscriber list"
  http_calls :: "string list"
  sms_log :: "sms list"
  console :: "log_entry list"

subsection \<open>The subscriber collection\<close>

text \<open>
  Modelled from the spec: the mongoose model \<^verbatim>\<open>Subscriber\<close> is a library object; its
  operations follow section 4.2 of the specification (findByPhone, create failing with
  DuplicateError on a phone number already present, deleteByPhone reporting whether a
  record was removed) and the schema of the source (a unique index on phoneNumber).
\<close>

definition findOne :: "subscriber list \<Rightarrow> string \<Rightarrow> subscriber option" where
  "findOne st p = find (\<lambda>r. phoneNumber r = p) st"

definition save :: "subscriber list \<Rightarrow> subscriber \<Rightarrow> error + subscriber list" where
  "save st r = (if list_ex (\<lambda>x. phoneNumber x = phoneNumber r) st
                then Inl DuplicateError else Inr (st @ [r]))"

text \<open>\<^verbatim>\<open>deleteOne\<close> removes the first matching record and reports \<^verbatim>\<open>deletedCount\<close>.\<close>

fun deleteOne :: "subscriber list \<Rightarrow> string \<Rightarrow> nat \<times> subscriber list" where
  "deleteOne [] p = (0, [])"
| "deleteOne (r # rs) p =
     (if phoneNumber r = p then (1, rs)
      else (case deleteOne rs p of (n, rs') \<Rightarrow> (n, r # rs')))"

subsection \<open>The SMS provider\<close>

text \<open>
  \<^verbatim>\<open>await twilioClient.messages.create(m)\<close>: the message is handed over, then the call
  resolves or rejects.
\<close>

definition messages_create :: "env \<Rightarrow> state \<Rightarrow> sms \<Rightarrow> (error + unit) \<times> state" where
  "messages_create e s m =
     (let n = length (sms_log s);
          s1 = s\<lparr>sms_log := sms_log s @ [m]\<rparr>
      in if twilio_create e n m then (Inr (), s1) else (Inl DeliveryError, s1))"

section \<open>Responses\<close>

datatype body =
    ErrorMsg string   \<comment> \<open>\<^verbatim>\<open>{ error: '...' }\<close> with a fixed text\<close>
  | Thrown error      \<comment> \<open>\<^verbatim>\<open>{ error: error.message || 'Failed to fetch weather data' }\<close>\<close>
  | Message string    \<comment> \<open>\<^verbatim>\<open>{ message: '...' }\<close>\<close>
  | Data json         \<comment> \<open>\<^verbatim>\<open>res.json(responseData)\<close>\<close>

record response =
  status :: nat
  body :: body

definition respond :: "nat \<Rightarrow> body \<Rightarrow> response" where
  "respond c b = \<lparr>status = c, body = b\<rparr>"

section \<open>POST /api/subscribe\<close>

record subscribe_body =
  req_phoneNumber :: "string option"
  req_district :: "string option"
  req_city :: "string option"

definition confirmation_sms :: "env \<Rightarrow> subscribe_body \<Rightarrow> sms" where
  "confirmation_sms e b =
     \<lparr>sms_body = ''You'' @ [CHR 0x27] @ ''ve subscribed to hourly weather alerts for ''
                   @ interp (req_city b) @ '', '' @ interp (req_district b)
                   @ ''. Reply STOP to unsubscribe.'',
      sms_from = TWILIO_PHONE_NUMBER e,
      sms_to = ''+91'' @ interp (req_phoneNumber b)\<rparr>"

definition already_subscribed :: "subscriber \<Rightarrow> string" where
  "already_subscribed existing =
     ''You'' @ [CHR 0x27] @ ''re already subscribed for '' @ city existing @ '', ''
       @ district existing"

text \<open>The \<^verbatim>\<open>catch\<close> block of the handler.\<close>

definition subscribe_catch :: "error \<Rightarrow> state \<Rightarrow> response \<times> state" where
  "subscribe_catch err s =
     (respond 500 (ErrorMsg ''Subscription failed''),
      s\<lparr>console := console s @ [LogHandlerError ''/api/subscribe'' err]\<rparr>)"

definition subscribe :: "env \<Rightarrow> state \<Rightarrow> subscribe_body \<Rightarrow> response \<times> state" where
  "subscribe e s b =
     (if falsy (req_phoneNumber b) \<or> \<not> test_10_digits (interp (req_phoneNumber b))
      then (respond 400 (ErrorMsg ''Invalid phone number''), s)
      else if falsy (req_district b) \<or> falsy (req_city b)
      then (respond 400 (ErrorMsg ''District and city are required''), s)
      else (case findOne (store s) (interp (req_phoneNumber b)) of
          Some existing \<Rightarrow> (respond 200 (Message (already_subscribed existing)), s)
        | None \<Rightarrow>
           (case save (store s)
                   \<lparr>phoneNumber = interp (req_phoneNumber b),
                    district = interp (req_district b),
                    city = interp (req_city b),
                    createdAt = Date_now e\<rparr> of
              Inl err \<Rightarrow> subscribe_catch err s
            | Inr st' \<Rightarrow>
               (let s1 = s\<lparr>store := st'\<rparr> in
                if NODE_ENV e \<noteq> Some ''test''
                then (case messages_create e s1 (confirmation_sms e b) of
                        (Inl err, s2) \<Rightarrow> subscribe_catch err s2
                      | (Inr u, s2) \<Rightarrow>
                          (respond 201 (Message ''Subscription successful''), s2))
                else (respond 201 (Message ''Subscription successful''), s1)))))"

section \<open>POST /api/unsubscribe\<close>

definition unsubscribe :: "state \<Rightarrow> string option \<Rightarrow> response \<times> state" where
  "unsubscribe s phone =
     (if falsy phone
      then (respond 400 (ErrorMsg ''Phone number is required''), s)
      else (case deleteOne (store s) (interp phone) of
              (deletedCount, st') \<Rightarrow>
                (if deletedCount = 0
                 then (respond 404 (ErrorMsg ''Subscription not found''), s\<lparr>store := st'\<rparr>)
                 else (respond 200 (Message ''Unsubscribed successfully''),
                       s\<lparr>store := st'\<rparr>))))"

section \<open>The weather client\<close>

text \<open>
  \<^verbatim>\<open>fetchWeatherData(location)\<close>: one GET, no retry.  Whatever axios throws is logged
  and replaced by \<^verbatim>\<open>new Error('Failed to fetch weather data')\<close>.  The base URL and the
  query parameters are constants, so a request is identified by its location.
\<close>

definition fetchWeatherData :: "env \<Rightarrow> state \<Rightarrow> string \<Rightarrow> (error + json) \<times> state" where
  "fetchWeatherData e s location =
     (let n = length (http_calls s);
          s1 = s\<lparr>http_calls := http_calls s @ [location]\<rparr>
      in case axios_get e n location of
           AxiosResponse d \<Rightarrow> (Inr d, s1)
         | AxiosFailure \<Rightarrow>
             (Inl UpstreamError, s1\<lparr>console := console s1 @ [LogFetchError]\<rparr>))"

text \<open>\<^verbatim>\<open>v[0]\<close>\<close>

fun index0 :: "json \<Rightarrow> error + json" where
  "index0 JUndefined = Inl TypeError"
| "index0 JNull = Inl TypeError"
| "index0 (JArr xs) = Inr (case xs of [] \<Rightarrow> JUndefined | x # rest \<Rightarrow> x)"
| "index0 (JStr s) = Inr (case s of [] \<Rightarrow> JUndefined | c # rest \<Rightarrow> JStr [c])"
| "index0 (JObj kvs) = Inr (case map_of kvs ''0'' of None \<Rightarrow> JUndefined | Some v \<Rightarrow> v)"
| "index0 v = Inr JUndefined"

text \<open>
  \<^verbatim>\<open>v.slice(0, 7)\<close>: arrays and strings have the method; on anything else the call
  throws (a JSON object never holds a function).
\<close>

fun slice_0_7 :: "json \<Rightarrow> error + json" where
  "slice_0_7 (JArr xs) = Inr (JArr (take 7 xs))"
| "slice_0_7 (JStr s) = Inr (JStr (take 7 s))"
| "slice_0_7 v = Inl TypeError"

text \<open>
  \<^verbatim>\<open>v.map(f)\<close>: only an array has the method.  The callback runs on the elements from
  left to right and its first exception ends the call.
\<close>

fun mapM :: "('a \<Rightarrow> error + 'b) \<Rightarrow> 'a list \<Rightarrow> error + 'b list" where
  "mapM f [] = Inr []"
| "mapM f (x # xs) = bnd (f x) (\<lambda>y. bnd (mapM f xs) (\<lambda>ys. Inr (y # ys)))"

fun array_map :: "(json \<Rightarrow> error + json) \<Rightarrow> json \<Rightarrow> error + json" where
  "array_map f (JArr xs) = bnd (mapM f xs) (\<lambda>ys. Inr (JArr ys))"
| "array_map f v = Inl TypeError"

text \<open>
  The properties of an object literal whose values are read from one object:
  \<open>(name, key)\<close> stands for \<^verbatim>\<open>name: obj.key\<close>, evaluated in the order written.
\<close>

fun pick :: "json \<Rightarrow> (string \<times> string) list \<Rightarrow> error + (string \<times> json) list" where
  "pick obj [] = Inr []"
| "pick obj ((name, k) # ks) =
     bnd (getProp obj k) (\<lambda>v. bnd (pick obj ks) (\<lambda>rest. Inr ((name, v) # rest)))"

definition processCurrentConditions :: "json \<Rightarrow> error + json" where
  "processCurrentConditions data =
     bnd (getProp data ''currentConditions'') (\<lambda>current.
     bnd (pick current
            [(''temp'', ''temp''), (''feelslike'', ''feelslike''), (''humidity'', ''humidity''),
             (''windspeed'', ''windspeed''), (''winddir'', ''winddir''),
             (''pressure'', ''pressure''), (''uvindex'', ''uvindex''),
             (''visibility'', ''visibility''), (''conditions'', ''conditions''),
             (''icon'', ''icon'')]) (\<lambda>fields1.
     bnd (getProp data ''days'') (\<lambda>days.
     bnd (index0 days) (\<lambda>day0.
     bnd (pick day0 [(''sunrise'', ''sunrise''), (''sunset'', ''sunset'')]) (\<lambda>fields2.
     bnd (pick current [(''precip'', ''precip''), (''snow'', ''snow'')]) (\<lambda>fields3.
     Inr (JObj (fields1 @ fields2 @ fields3))))))))"

text \<open>The callback of \<^verbatim>\<open>processHourlyForecast\<close>.\<close>

definition hour_record :: "env \<Rightarrow> json \<Rightarrow> error + json" where
  "hour_record e hour =
     bnd (getProp hour ''datetimeEpoch'') (\<lambda>datetimeEpoch.
     bnd (toNumber e datetimeEpoch) (\<lambda>epoch.
     bnd (pick hour
            [(''temp'', ''temp''), (''feelslike'', ''feelslike''), (''humidity'', ''humidity''),
             (''precip'', ''precip''), (''precipProb'', ''precipprob''),
             (''windspeed'', ''windspeed''), (''winddir'', ''winddir''),
             (''conditions'', ''conditions''), (''icon'', ''icon'')]) (\<lambda>fields.
     Inr (JObj ((''time'', JStr (hour_label e epoch)) # fields)))))"

definition processHourlyForecast :: "env \<Rightarrow> json \<Rightarrow> error + json" where
  "processHourlyForecast e hourlyData = array_map (hour_record e) hourlyData"

text \<open>The callback of \<^verbatim>\<open>processDailyForecast\<close>.\<close>

definition day_record :: "env \<Rightarrow> json \<Rightarrow> error + json" where
  "day_record e day =
     bnd (getProp day ''datetimeEpoch'') (\<lambda>datetimeEpoch.
     bnd (toNumber e datetimeEpoch) (\<lambda>epoch.
     bnd (pick day
            [(''tempmax'', ''tempmax''), (''tempmin'', ''tempmin''), (''temp'', ''temp''),
             (''feelslike'', ''feelslike''), (''humidity'', ''humidity''),
             (''precip'', ''precip''), (''precipProb'', ''precipprob''),
             (''windspeed'', ''windspeed''), (''winddir'', ''winddir''),
             (''conditions'', ''conditions''), (''icon'', ''icon''),
             (''sunrise'', ''sunrise''), (''sunset'', ''sunset''),
             (''description'', ''description'')]) (\<lambda>fields.
     Inr (JObj ((''date'', JStr (date_label e epoch)) # fields)))))"

definition processDailyForecast :: "env \<Rightarrow> json \<Rightarrow> error + json" where
  "processDailyForecast e dailyData = array_map (day_record e) dailyData"

section \<open>GET /api/weather\<close>

record weather_query =
  q_city :: "string option"
  q_district :: "string option"

text \<open>
  \<^verbatim>\<open>!weatherData || weatherData.errorCode\<close>.  The property is read only on a truthy
  payload, where the read cannot throw.
\<close>

definition not_found :: "json \<Rightarrow> bool" where
  "not_found weatherData =
     (if \<not> truthy weatherData then True
      else (case getProp weatherData ''errorCode'' of
              Inl err \<Rightarrow> False
            | Inr code \<Rightarrow> truthy code))"

definition responseData :: "env \<Rightarrow> json \<Rightarrow> error + json" where
  "responseData e weatherData =
     bnd (getProp weatherData ''resolvedAddress'') (\<lambda>address.
     bnd (processCurrentConditions weatherData) (\<lambda>current.
     bnd (getProp weatherData ''days'') (\<lambda>days.
     bnd (index0 days) (\<lambda>day0.
     bnd (getProp day0 ''hours'') (\<lambda>hours.
     bnd (processHourlyForecast e hours) (\<lambda>hourly.
     bnd (getProp weatherData ''days'') (\<lambda>days'.
     bnd (slice_0_7 days') (\<lambda>first7.
     bnd (processDailyForecast e first7) (\<lambda>daily.
     Inr (JObj [(''address'', address), (''currentConditions'', current),
                (''hourly'', hourly), (''daily'', daily)]))))))))))"

definition weather_catch :: "error \<Rightarrow> state \<Rightarrow> response \<times> state" where
  "weather_catch err s =
     (respond 500 (Thrown err),
      s\<lparr>console := console s @ [LogHandlerError ''/api/weather'' err]\<rparr>)"

text \<open>The handler from the second test of the payload on.\<close>

definition weather_finish :: "env \<Rightarrow> state \<Rightarrow> json \<Rightarrow> response \<times> state" where
  "weather_finish e s weatherData =
     (if not_found weatherData
      then (respond 404 (ErrorMsg ''Location not found''), s)
      else (case responseData e weatherData of
              Inl err \<Rightarrow> weather_catch err s
            | Inr d \<Rightarrow> (respond 200 (Data d), s)))"

definition weather :: "env \<Rightarrow> state \<Rightarrow> weather_query \<Rightarrow> response \<times> state" where
  "weather e s q =
     (if falsy (q_city q) \<or> falsy (q_district q)
      then (respond 400 (ErrorMsg ''City and district are required''), s)
      else (case fetchWeatherData e s (interp (q_city q) @ '',Tamil Nadu,India'') of
              (Inl err, s1) \<Rightarrow> weather_catch err s1
            | (Inr weatherData, s1) \<Rightarrow>
                (if not_found weatherData
                 then (case fetchWeatherData e s1
                              (interp (q_district q) @ '',Tamil Nadu,India'') of
                         (Inl err, s2) \<Rightarrow> weather_catch err s2
                       | (Inr weatherData', s2) \<Rightarrow> weather_finish e s2 weatherData')
                 else weather_finish e s1 weatherData)))"

section \<open>The hourly job\<close>

text \<open>
  The text of the alert: three template literals joined by \<^verbatim>\<open>+\<close>.  Each value is read
  and converted in the order written; \<open>CHR 0xB0\<close> is the degree sign.
\<close>

definition alert_message :: "env \<Rightarrow> subscriber \<Rightarrow> json \<Rightarrow> error + string" where
  "alert_message e sub current =
     bnd (getProp current ''conditions'') (\<lambda>conditions.
     bnd (toStr (Number_toString e) conditions) (\<lambda>conditions_text.
     bnd (getProp current ''temp'') (\<lambda>temp.
     bnd (toStr (Number_toString e) temp) (\<lambda>temp_text.
     bnd (getProp current ''feelslike'') (\<lambda>feelslike.
     bnd (toStr (Number_toString e) feelslike) (\<lambda>feelslike_text.
     bnd (getProp current ''humidity'') (\<lambda>humidity.
     bnd (toStr (Number_toString e) humidity) (\<lambda>humidity_text.
     bnd (getProp current ''windspeed'') (\<lambda>windspeed.
     bnd (toStr (Number_toString e) windspeed) (\<lambda>windspeed_text.
     Inr (''Weather alert for '' @ city sub @ '': '' @ conditions_text @ '', ''
          @ ''Temp: '' @ temp_text @ [CHR 0xB0] @ ''F (feels like ''
            @ feelslike_text @ [CHR 0xB0] @ ''F), ''
          @ ''Humidity: '' @ humidity_text @ ''%, Wind: '' @ windspeed_text
            @ '' mph'')))))))))))"

text \<open>The body of the inner \<^verbatim>\<open>try\<close>, for one subscriber.\<close>

definition alert_try :: "env \<Rightarrow> state \<Rightarrow> subscriber \<Rightarrow> (error + unit) \<times> state" where
  "alert_try e s sub =
     (case fetchWeatherData e s (city sub @ '',Tamil Nadu,India'') of
        (Inl err, s1) \<Rightarrow> (Inl err, s1)
      | (Inr weatherData, s1) \<Rightarrow>
          (case bnd (getProp weatherData ''currentConditions'') (alert_message e sub) of
             Inl err \<Rightarrow> (Inl err, s1)
           | Inr message \<Rightarrow>
               (case (if NODE_ENV e \<noteq> Some ''test''
                      then messages_create e s1
                             \<lparr>sms_body = message,
                              sms_from = TWILIO_PHONE_NUMBER e,
                              sms_to = ''+91'' @ phoneNumber sub\<rparr>
                      else (Inr (), s1)) of
                  (Inl err, s2) \<Rightarrow> (Inl err, s2)
                | (Inr u, s2) \<Rightarrow>
                    (Inr (), s2\<lparr>console := console s2 @ [LogSent (phoneNumber sub)]\<rparr>))))"

text \<open>One iteration of the loop: the inner \<^verbatim>\<open>try\<close> with its \<^verbatim>\<open>catch\<close>.\<close>

definition alert_one :: "env \<Rightarrow> state \<Rightarrow> subscriber \<Rightarrow> state" where
  "alert_one e s sub =
     (case alert_try e s sub of
        (Inr u, s1) \<Rightarrow> s1
      | (Inl err, s1) \<Rightarrow> s1\<lparr>console := console s1 @ [LogFailed (phoneNumber sub) err]\<rparr>)"

text \<open>\<^verbatim>\<open>for (const sub of subscribers)\<close>\<close>

fun for_subscribers :: "env \<Rightarrow> state \<Rightarrow> subscriber list \<Rightarrow> state" where
  "for_subscribers e s [] = s"
| "for_subscribers e s (sub # subs) = for_subscribers e (alert_one e s sub) subs"

text \<open>The body of the outer \<^verbatim>\<open>try\<close>, then the job with its \<^verbatim>\<open>catch\<close>.\<close>

definition hourly_job_try :: "env \<Rightarrow> state \<Rightarrow> (error + unit) \<times> state" where
  "hourly_job_try e s =
     (let s0 = s\<lparr>console := console s @ [LogStarting]\<rparr>;
          subscribers = store s0;
          s1 = for_subscribers e s0 subscribers
      in (Inr (), s1\<lparr>console := console s1 @ [LogCompleted (length subscribers)]\<rparr>))"

definition hourly_job :: "env \<Rightarrow> state \<Rightarrow> state" where
  "hourly_job e s =
     (case hourly_job_try e s of
        (Inr u, s1) \<Rightarrow> s1
      | (Inl err, s1) \<Rightarrow> s1\<lparr>console := console s1 @ [LogJobError err]\<rparr>)"

section \<open>Runs of the server\<close>

text \<open>
  The server handles one request or one tick of the scheduler after the other; every step
  meets its own answers of the outside world.
\<close>

datatype event =
    Subscribe subscribe_body
  | Unsubscribe "string option"
  | Weather weather_query
  | Tick

fun step :: "env \<Rightarrow> state \<Rightarrow> event \<Rightarrow> state" where
  "step e s (Subscribe b) = snd (subscribe e s b)"
| "step e s (Unsubscribe phone) = snd (unsubscribe s phone)"
| "step e s (Weather q) = snd (weather e s q)"
| "step e s Tick = hourly_job e s"

fun run :: "state \<Rightarrow> (env \<times> event) list \<Rightarrow> state" where
  "run s [] = s"
| "run s ((e, ev) # evs) = run (step e s ev) evs"

text \<open>At most one record per phone number; every stored phone number has ten digits.\<close>

definition phones_unique :: "subscriber list \<Rightarrow> bool" where
  "phones_unique st = distinct (map phoneNumber st)"

definition phones_valid :: "subscriber list \<Rightarrow> bool" where
  "phones_valid st = list_all (\<lambda>r. test_10_digits (phoneNumber r)) st"

section \<open>Sample data\<close>

text \<open>A store with one subscriber, and answers of the outside world, for the examples.\<close>

definition sample_env :: env where
  "sample_env =
     \<lparr>axios_get = (\<lambda>n location. AxiosFailure),
      twilio_create = (\<lambda>n m. True),
      NODE_ENV = None,
      TWILIO_PHONE_NUMBER = Some ''+15005550006'',
      Date_now = 1700000000000,
      Number_toString = (\<lambda>r. if r = 88 then ''88'' else if r = 95 then ''95''
                              else if r = 70 then ''70'' else ''9''),
      hour_label = (\<lambda>v. ''10 am''),
      date_label = (\<lambda>v. ''Monday, 1 Jan'')\<rparr>"

definition chennai :: subscriber where
  "chennai = \<lparr>phoneNumber = ''9876543210'', district = ''Chennai'', city = ''Chennai'',
              createdAt = 1690000000000\<rparr>"

definition sample_state :: state where
  "sample_state = \<lparr>store = [chennai], http_calls = [], sms_log = [], console = []\<rparr>"

definition sms_down_env :: env where
  "sms_down_env = sample_env\<lparr>twilio_create := (\<lambda>n m. False)\<rparr>"

definition salem_body :: subscribe_body where
  "salem_body = \<lparr>req_phoneNumber = Some ''9123456780'', req_district = Some ''Salem'',
                 req_city = Some ''Salem''\<rparr>"

definition madurai_body :: subscribe_body where
  "madurai_body = \<lparr>req_phoneNumber = Some ''9876543210'', req_district = Some ''Madurai'',
                   req_city = Some ''Madurai''\<rparr>"

definition sample_events :: "(env \<times> event) list" where
  "sample_events =
     [(sample_env, Subscribe madurai_body), (sms_down_env, Subscribe salem_body),
      (sample_env, Tick), (sample_env, Subscribe salem_body),
      (sample_env, Unsubscribe (Some ''9876543210''))]"

definition error_payload :: json where
  "error_payload = JObj [(''errorCode'', JNum 404)]"

definition next_day :: json where
  "next_day = JObj [(''datetimeEpoch'', JNum 1700086400), (''tempmax'', JNum 90)]"

definition chennai_payload :: json where
  "chennai_payload =
     JObj [(''resolvedAddress'', JStr ''Chennai, TN, India''),
           (''currentConditions'',
              JObj [(''temp'', JNum 88), (''feelslike'', JNum 95), (''humidity'', JNum 70),
                    (''windspeed'', JNum 9), (''conditions'', JStr ''Clear'')]),
           (''days'',
              JArr [JObj [(''datetimeEpoch'', JNum 1700000000),
                          (''sunrise'', JStr ''06:05:00''),
                          (''hours'',
                             JArr [JObj [(''datetimeEpoch'', JNum 1700000000),
                                         (''temp'', JNum 80)],
                                   JObj [(''datetimeEpoch'', JNum 1700003600),
                                         (''temp'', JNum 81)]])],
                    next_day, next_day, next_day, next_day, next_day, next_day, next_day])]"

definition weather_env :: env where
  "weather_env =
     sample_env\<lparr>axios_get := (\<lambda>n location.
        if location = ''Chennai,Tamil Nadu,India'' then AxiosResponse chennai_payload
        else if location = ''Salem,Tamil Nadu,India'' then AxiosFailure
        else AxiosResponse error_payload)\<rparr>"

definition unknown_query :: weather_query where
  "unknown_query = \<lparr>q_city = Some ''Atlantis'', q_district = Some ''Lemuria''\<rparr>"

definition salem_query :: weather_query where
  "salem_query = \<lparr>q_city = Some ''Salem'', q_district = Some ''Chennai''\<rparr>"


definition pollachi :: subscriber where
  "pollachi = \<lparr>phoneNumber = ''9444000111'', district = ''Coimbatore'', city = ''Pollachi'',
               createdAt = 1690000000003\<rparr>"

definition pollachi_state :: state where
  "pollachi_state = \<lparr>store = [chennai, pollachi], http_calls = [], sms_log = [],
                      console = []\<rparr>"

definition pollachi_again :: subscribe_body where
  "pollachi_again = \<lparr>req_phoneNumber = Some ''9444000111'', req_district = Some ''Madurai'',
                     req_city = Some ''Melur''\<rparr>"

definition madurai_payload :: json where
  "madurai_payload =
     JObj [(''currentConditions'',
              JObj [(''conditions'', JObj [(''toString'', JStr ''Rain'')]),
                    (''temp'', JNum 88)])]"

definition alert_env :: env where
  "alert_env =
     weather_env\<lparr>axios_get := (\<lambda>n location.
        if location = ''Madurai,Tamil Nadu,India'' then AxiosResponse madurai_payload
        else axios_get weather_env n location),
      twilio_create := (\<lambda>n m. sms_to m \<noteq> ''+919000000001'')\<rparr>"

definition five_subscribers :: state where
  "five_subscribers =
     \<lparr>store = [chennai,
               \<lparr>phoneNumber = ''9123456780'', district = ''Salem'', city = ''Salem'',
                createdAt = 1690000000001\<rparr>,
               \<lparr>phoneNumber = ''9000000001'', district = ''Chennai'', city = ''Chennai'',
                createdAt = 1690000000002\<rparr>,
               \<lparr>phoneNumber = ''9000000002'', district = ''Madurai'', city = ''Madurai'',
                createdAt = 1690000000003\<rparr>,
               \<lparr>phoneNumber = ''9000000003'', district = ''Chennai'', city = ''Chennai'',
                createdAt = 1690000000004\<rparr>],
      http_calls = [], sms_log = [], console = []\<rparr>"

section \<open>The store and its invariants\<close>

lemma findOne_phone: "findOne st p = Some r \<Longrightarrow> phoneNumber r = p \<and> r \<in> set st"
  by (induction st) (auto simp: findOne_def split: if_splits)

lemma deleteOne_absent: "findOne st p = None \<Longrightarrow> deleteOne st p = (0, st)"
  by (induction st) (auto simp: findOne_def)

lemma deleteOne_present: "findOne st p = Some r \<Longrightarrow> deleteOne st p = (1, remove1 r st)"
proof (induction st)
  case Nil
  then show ?case by (simp add: findOne_def)
next
  case (Cons a st)
  show ?case
  proof (cases "phoneNumber a = p")
    case True
    with Cons.prems show ?thesis by (simp add: findOne_def)
  next
    case False
    with Cons.prems have f: "findOne st p = Some r" by (simp add: findOne_def)
    then have "phoneNumber r = p" by (simp add: findOne_phone)
    with False have "a \<noteq> r" by auto
    with False f Cons.IH show ?thesis by simp
  qed
qed

lemma findOne_None_iff: "findOne st p = None \<longleftrightarrow> p \<notin> phoneNumber ` set st"
  by (induction st) (auto simp: findOne_def)

lemma save_absent: "findOne st (phoneNumber r) = None \<Longrightarrow> save st r = Inr (st @ [r])"
  by (induction st) (auto simp: save_def findOne_def split: if_splits)

lemma findOne_append_new:
  "findOne st p = None \<Longrightarrow> phoneNumber r = p \<Longrightarrow> findOne (st @ [r]) p = Some r"
  by (induction st) (auto simp: findOne_def split: if_splits)

lemma subscribe_created:
  assumes "req_phoneNumber b = Some p" "test_10_digits p" "findOne (store s) p = None"
    "\<not> falsy (req_district b)" "\<not> falsy (req_city b)"
  shows "subscribe e s b =
    (let s1 = s\<lparr>store := store s @ [\<lparr>phoneNumber = p, district = interp (req_district b),
                     city = interp (req_city b), createdAt = Date_now e\<rparr>]\<rparr> in
                if NODE_ENV e \<noteq> Some ''test''
                then (case messages_create e s1 (confirmation_sms e b) of
                        (Inl err, s2) \<Rightarrow> subscribe_catch err s2
                      | (Inr u, s2) \<Rightarrow>
                          (respond 201 (Message ''Subscription successful''), s2))
                else (respond 201 (Message ''Subscription successful''), s1))"
proof -
  from assms(2) have "p \<noteq> []" by (auto simp: test_10_digits_def)
  with assms show ?thesis by (simp add: subscribe_def save_absent)
qed

lemma findOne_Some_filter:
  "findOne st p = Some r \<Longrightarrow> phones_unique st \<Longrightarrow>
   filter (\<lambda>x. phoneNumber x = p) st = [r]"
proof (induction st)
  case Nil
  then show ?case by (simp add: findOne_def)
next
  case (Cons a st)
  show ?case
  proof (cases "phoneNumber a = p")
    case True
    with Cons.prems have "a = r" by (simp add: findOne_def)
    moreover from True Cons.prems have "p \<notin> phoneNumber ` set st"
      by (auto simp: phones_unique_def)
    then have "filter (\<lambda>x. phoneNumber x = p) st = []"
      by (auto simp: filter_empty_conv)
    ultimately show ?thesis using True by simp
  next
    case False
    with Cons show ?thesis by (simp add: findOne_def phones_unique_def)
  qed
qed

lemma sample_valid: "test_10_digits ''9123456780''"
  by (simp add: test_10_digits_def isDigit_def)

lemma store_fetchWeatherData [simp]: "store (snd (fetchWeatherData e s l)) = store s"
  by (simp add: fetchWeatherData_def Let_def split: axios_result.splits)

lemma store_messages_create [simp]: "store (snd (messages_create e s m)) = store s"
  by (simp add: messages_create_def Let_def)

lemma store_weather_finish [simp]: "store (snd (weather_finish e s w)) = store s"
  by (simp add: weather_finish_def weather_catch_def split: sum.splits)

lemma store_weather [simp]: "store (snd (weather e s q)) = store s"
proof -
  have a: "store s1 = store s" if "fetchWeatherData e s l = (r, s1)" for r s1 l s
    using store_fetchWeatherData [of e s l] that by simp
  show ?thesis
    by (auto simp: weather_def weather_catch_def split: prod.splits sum.splits dest!: a)
qed

lemma store_alert_try [simp]: "store (snd (alert_try e s sub)) = store s"
proof -
  have a: "store s1 = store s" if "fetchWeatherData e s l = (r, s1)" for r s1 l s
    using store_fetchWeatherData [of e s l] that by simp
  have b: "store s1 = store s" if "messages_create e s m = (r, s1)" for r s1 m s
    using store_messages_create [of e s m] that by simp
  show ?thesis
    by (auto simp: alert_try_def split: prod.splits sum.splits if_splits dest!: a b)
qed

lemma store_alert_one [simp]: "store (alert_one e s sub) = store s"
proof -
  have a: "store s1 = store s" if "alert_try e s sub = (r, s1)" for r s1
    using store_alert_try [of e s sub] that by simp
  show ?thesis
    by (auto simp: alert_one_def split: prod.splits sum.splits dest!: a)
qed

lemma store_for_subscribers [simp]: "store (for_subscribers e s subs) = store s"
  by (induction subs arbitrary: s) simp_all

lemma store_hourly_job [simp]: "store (hourly_job e s) = store s"
  by (simp add: hourly_job_def hourly_job_try_def Let_def)

lemma store_subscribe:
  "store (snd (subscribe e s b)) = store s \<or>
   (\<exists>r. findOne (store s) (phoneNumber r) = None \<and> test_10_digits (phoneNumber r) \<and>
        store (snd (subscribe e s b)) = store s @ [r])"
proof (cases "\<exists>p. req_phoneNumber b = Some p \<and> test_10_digits p
    \<and> findOne (store s) p = None \<and> \<not> falsy (req_district b) \<and> \<not> falsy (req_city b)")
  case True
  then obtain p where p: "req_phoneNumber b = Some p" "test_10_digits p"
    "findOne (store s) p = None" "\<not> falsy (req_district b)" "\<not> falsy (req_city b)"
    by blast
  let ?r = "\<lparr>phoneNumber = p, district = interp (req_district b),
             city = interp (req_city b), createdAt = Date_now e\<rparr>"
  have "store (snd (subscribe e s b)) = store s @ [?r]"
    by (simp add: subscribe_created [OF p] messages_create_def subscribe_catch_def Let_def)
  with p show ?thesis by (intro disjI2 exI [of _ ?r]) simp
next
  case False
  then have "store (snd (subscribe e s b)) = store s"
    by (cases "req_phoneNumber b")
       (auto simp: subscribe_def split: option.splits)
  then show ?thesis by simp
qed

lemma store_unsubscribe:
  "store (snd (unsubscribe s phone)) = store s \<or>
   (\<exists>r. store (snd (unsubscribe s phone)) = remove1 r (store s))"
proof (cases "findOne (store s) (interp phone)")
  case None
  then show ?thesis by (simp add: unsubscribe_def deleteOne_absent)
next
  case (Some r)
  then show ?thesis by (auto simp: unsubscribe_def deleteOne_present)
qed

lemma phones_unique_append:
  "phones_unique st \<Longrightarrow> findOne st (phoneNumber r) = None \<Longrightarrow> phones_unique (st @ [r])"
  by (simp add: phones_unique_def findOne_None_iff)

lemma phones_unique_remove1: "phones_unique st \<Longrightarrow> phones_unique (remove1 r st)"
  unfolding phones_unique_def
proof (induction st)
  case Nil
  then show ?case by simp
next
  case (Cons a st)
  have "set (remove1 r st) \<subseteq> set st" by (rule set_remove1_subset)
  with Cons show ?case by auto
qed

lemma step_phones_unique: "phones_unique (store s) \<Longrightarrow> phones_unique (store (step e s ev))"
proof (cases ev)
  case (Subscribe b)
  assume "phones_unique (store s)"
  with store_subscribe [of e s b] Subscribe show ?thesis
    by (auto simp: phones_unique_append)
next
  case (Unsubscribe phone)
  assume "phones_unique (store s)"
  with store_unsubscribe [of s phone] Unsubscribe show ?thesis
    by (auto simp: phones_unique_remove1)
qed simp_all

lemma phones_valid_remove1: "phones_valid st \<Longrightarrow> phones_valid (remove1 r st)"
  using set_remove1_subset [of r st] by (auto simp: phones_valid_def list_all_iff)

lemma step_phones_valid: "phones_valid (store s) \<Longrightarrow> phones_valid (store (step e s ev))"
proof (cases ev)
  case (Subscribe b)
  assume "phones_valid (store s)"
  with store_subscribe [of e s b] Subscribe show ?thesis
    by (auto simp: phones_valid_def)
next
  case (Unsubscribe phone)
  assume "phones_valid (store s)"
  with store_unsubscribe [of s phone] Unsubscribe show ?thesis
    by (auto simp: phones_valid_remove1)
qed simp_all

lemma run_phones_valid: "phones_valid (store s) \<Longrightarrow> phones_valid (store (run s evs))"
  by (induction s evs rule: run.induct) (simp_all add: step_phones_valid)

section \<open>Subscribing and unsubscribing\<close>

text \<open>
  Claim C6.  POST /api/unsubscribe answers 400 when the phone number is missing from the
  body (the test is \<^verbatim>\<open>!phoneNumber\<close>: an absent or empty field) and leaves the state
  as it was.  Otherwise it deletes the matching record: when no record has that phone
  number the answer is 404 and the whole state, the store included, is unchanged; when
  there is one, the answer is 200 and the store has lost exactly that record.
\<close>

theorem unsubscribe_outcomes:
  "(falsy phone \<longrightarrow>
      status (fst (unsubscribe s phone)) = 400 \<and> snd (unsubscribe s phone) = s) \<and>
   (\<not> falsy phone \<and> findOne (store s) (interp phone) = None \<longrightarrow>
      status (fst (unsubscribe s phone)) = 404 \<and> snd (unsubscribe s phone) = s) \<and>
   (\<not> falsy phone \<and> findOne (store s) (interp phone) = Some r \<longrightarrow>
      status (fst (unsubscribe s phone)) = 200 \<and>
      snd (unsubscribe s phone) = s\<lparr>store := remove1 r (store s)\<rparr>)"
  by (simp add: unsubscribe_def respond_def deleteOne_absent deleteOne_present)

theorem unsubscribe_outcomes_witness:
  "status (fst (unsubscribe sample_state None)) = 400 \<and>
   snd (unsubscribe sample_state None) = sample_state \<and>
   status (fst (unsubscribe sample_state (Some ''9000000000''))) = 404 \<and>
   snd (unsubscribe sample_state (Some ''9000000000'')) = sample_state \<and>
   status (fst (unsubscribe sample_state (Some ''9876543210''))) = 200 \<and>
   store (snd (unsubscribe sample_state (Some ''9876543210''))) = []"
proof -
  have a: "falsy None" by simp
  have b: "\<not> falsy (Some ''9000000000'') \<and>
           findOne (store sample_state) (interp (Some ''9000000000'')) = None"
    by (simp add: sample_state_def chennai_def findOne_def)
  have c: "\<not> falsy (Some ''9876543210'') \<and>
           findOne (store sample_state) (interp (Some ''9876543210'')) = Some chennai"
    by (simp add: sample_state_def chennai_def findOne_def)
  show ?thesis
    using a b c unsubscribe_outcomes [of None sample_state chennai]
      unsubscribe_outcomes [of "Some ''9000000000''" sample_state chennai]
      unsubscribe_outcomes [of "Some ''9876543210''" sample_state chennai]
    by (simp add: sample_state_def)
qed

text \<open>
  Claim C10.  POST /api/unsubscribe checks nothing about the phone number but that it is
  not empty: for every non-empty string the handler goes on to the delete and its answer
  is that of the delete, never 400.  Every phone number in the store has ten digits
  (\<open>run_phones_valid\<close>), so a string that is not ten digits matches no record: the
  answer is 404 and the state is unchanged.
\<close>

theorem unsubscribe_no_shape_check:
  assumes "p \<noteq> []"
  shows "unsubscribe s (Some p) =
           (case deleteOne (store s) p of
              (deletedCount, st') \<Rightarrow>
                (if deletedCount = 0
                 then (respond 404 (ErrorMsg ''Subscription not found''), s\<lparr>store := st'\<rparr>)
                 else (respond 200 (Message ''Unsubscribed successfully''),
                       s\<lparr>store := st'\<rparr>)))
         \<and> status (fst (unsubscribe s (Some p))) \<noteq> 400
         \<and> (phones_valid (store s) \<and> \<not> test_10_digits p \<longrightarrow>
              status (fst (unsubscribe s (Some p))) = 404 \<and> snd (unsubscribe s (Some p)) = s)"
proof -
  have "findOne (store s) p = None" if "phones_valid (store s)" "\<not> test_10_digits p"
    using that by (auto simp: findOne_None_iff phones_valid_def list_all_iff)
  then show ?thesis using assms
    by (auto simp: unsubscribe_def respond_def deleteOne_absent split: prod.splits)
qed

theorem unsubscribe_no_shape_check_witness:
  "''12ab'' \<noteq> [] \<and> phones_valid (store sample_state) \<and> \<not> test_10_digits ''12ab'' \<and>
   status (fst (unsubscribe sample_state (Some ''12ab''))) = 404 \<and>
   snd (unsubscribe sample_state (Some ''12ab'')) = sample_state"
proof -
  have h: "''12ab'' \<noteq> []" by simp
  have v: "phones_valid (store sample_state)"
    by (simp add: phones_valid_def sample_state_def chennai_def test_10_digits_def isDigit_def)
  have n: "\<not> test_10_digits ''12ab''" by (simp add: test_10_digits_def)
  show ?thesis using h v n unsubscribe_no_shape_check [OF h, of sample_state, THEN conjunct2] by simp
qed



text \<open>
  Claim C1.  A subscribe request with a ten-digit phone number that has no record yet,
  with district and city present, whose confirmation SMS is rejected by the provider
  (outside the test mode, where no SMS is sent) is answered 500, and the record created
  for it is in the store afterwards: \<^verbatim>\<open>findOne\<close> on the number returns it.
\<close>

theorem subscribe_sms_failure_keeps_record:
  assumes "req_phoneNumber b = Some p" and "test_10_digits p"
    and "findOne (store s) p = None"
    and "\<not> falsy (req_district b)" and "\<not> falsy (req_city b)"
    and "NODE_ENV e \<noteq> Some ''test''"
    and "\<not> twilio_create e (length (sms_log s)) (confirmation_sms e b)"
  shows "status (fst (subscribe e s b)) = 500 \<and>
         findOne (store (snd (subscribe e s b))) p =
           Some \<lparr>phoneNumber = p, district = interp (req_district b),
                 city = interp (req_city b), createdAt = Date_now e\<rparr>"
  using assms
  by (simp add: subscribe_created messages_create_def subscribe_catch_def respond_def
      findOne_append_new)

theorem subscribe_sms_failure_keeps_record_witness:
  "status (fst (subscribe sms_down_env sample_state salem_body)) = 500 \<and>
   findOne (store (snd (subscribe sms_down_env sample_state salem_body))) ''9123456780'' =
     Some \<lparr>phoneNumber = ''9123456780'', district = ''Salem'', city = ''Salem'',
           createdAt = 1700000000000\<rparr>"
proof -
  have 1: "req_phoneNumber salem_body = Some ''9123456780''"
    by (simp add: salem_body_def)
  have 2: "findOne (store sample_state) ''9123456780'' = None"
    by (simp add: sample_state_def chennai_def findOne_def)
  have 3: "\<not> falsy (req_district salem_body)" "\<not> falsy (req_city salem_body)"
    by (simp_all add: salem_body_def)
  have 4: "NODE_ENV sms_down_env \<noteq> Some ''test''"
    by (simp add: sms_down_env_def sample_env_def)
  have 5: "\<not> twilio_create sms_down_env (length (sms_log sample_state))
               (confirmation_sms sms_down_env salem_body)"
    by (simp add: sms_down_env_def)
  show ?thesis
    using subscribe_sms_failure_keeps_record [OF 1 sample_valid 2 3 4 5]
    by (simp add: salem_body_def sms_down_env_def sample_env_def)
qed

text \<open>
  Claim C3.  In a store whose phone numbers are unique and have ten digits (every store
  the server can reach, by \<open>run_phones_valid\<close> and \<open>step_phones_unique\<close>), a
  subscribe request for a phone number that has a record, with district and city present,
  is answered 200 with the text "You're already subscribed for", then the city of the
  existing record, a comma and the district of the existing record, whatever city and
  district the request names.  The state is unchanged: no record is added or changed and
  no SMS is sent.  Afterwards exactly one record has that phone number, the existing one.
\<close>

theorem resubscribe_is_noop:
  assumes "phones_valid (store s)" and "phones_unique (store s)"
    and "findOne (store s) p = Some existing"
    and "req_phoneNumber b = Some p"
    and "\<not> falsy (req_district b)" and "\<not> falsy (req_city b)"
  shows "subscribe e s b =
           (\<lparr>status = 200,
             body = Message (''You'' @ [CHR 0x27] @ ''re already subscribed for ''
                              @ city existing @ '', '' @ district existing)\<rparr>, s) \<and>
         status (fst (subscribe e s b)) = 200 \<and>
         filter (\<lambda>r. phoneNumber r = p) (store (snd (subscribe e s b))) = [existing]"
proof -
  from assms(3) have "phoneNumber existing = p" "existing \<in> set (store s)"
    by (simp_all add: findOne_phone)
  with assms(1) have v: "test_10_digits p"
    by (auto simp: phones_valid_def list_all_iff)
  then have "p \<noteq> []" by (auto simp: test_10_digits_def)
  with v assms have "subscribe e s b =
           (\<lparr>status = 200,
             body = Message (''You'' @ [CHR 0x27] @ ''re already subscribed for ''
                              @ city existing @ '', '' @ district existing)\<rparr>, s)"
    by (simp add: subscribe_def respond_def already_subscribed_def)
  with assms show ?thesis by (simp add: findOne_Some_filter)
qed

theorem resubscribe_is_noop_witness:
  "subscribe sample_env pollachi_state pollachi_again =
     (\<lparr>status = 200,
       body = Message (''You'' @ [CHR 0x27]
                        @ ''re already subscribed for Pollachi, Coimbatore'')\<rparr>,
      pollachi_state) \<and>
   filter (\<lambda>r. phoneNumber r = ''9444000111'')
     (store (snd (subscribe sample_env pollachi_state pollachi_again))) = [pollachi]"
proof -
  have 1: "phones_valid (store pollachi_state)"
    by (simp add: phones_valid_def pollachi_state_def chennai_def pollachi_def
        test_10_digits_def isDigit_def)
  have 2: "phones_unique (store pollachi_state)"
    by (simp add: phones_unique_def pollachi_state_def chennai_def pollachi_def)
  have 3: "findOne (store pollachi_state) ''9444000111'' = Some pollachi"
    by (simp add: pollachi_state_def chennai_def pollachi_def findOne_def)
  have 4: "req_phoneNumber pollachi_again = Some ''9444000111''"
    by (simp add: pollachi_again_def)
  have 5: "\<not> falsy (req_district pollachi_again)" "\<not> falsy (req_city pollachi_again)"
    by (simp_all add: pollachi_again_def)
  note t = resubscribe_is_noop [OF 1 2 3 4 5, of sample_env]
  have c: "city pollachi = ''Pollachi''" "district pollachi = ''Coimbatore''"
    by (simp_all add: pollachi_def)
  from t have a: "subscribe sample_env pollachi_state pollachi_again =
     (\<lparr>status = 200,
       body = Message (''You'' @ [CHR 0x27] @ ''re already subscribed for ''
                        @ city pollachi @ '', '' @ district pollachi)\<rparr>,
      pollachi_state)"
    by blast
  from t have f: "filter (\<lambda>r. phoneNumber r = ''9444000111'')
     (store (snd (subscribe sample_env pollachi_state pollachi_again))) = [pollachi]"
    by blast
  from a have "subscribe sample_env pollachi_state pollachi_again =
     (\<lparr>status = 200,
       body = Message (''You'' @ [CHR 0x27]
                        @ ''re already subscribed for Pollachi, Coimbatore'')\<rparr>,
      pollachi_state)"
    unfolding c by simp
  with f show ?thesis by blast
qed

text \<open>
  Claim C4.  From a store with at most one record per phone number, every sequence of
  subscribe, unsubscribe and weather requests and of ticks of the scheduler, each against
  its own answers of the outside world, leads to a store with at most one record per
  phone number.
\<close>

theorem run_phones_unique: "phones_unique (store s) \<Longrightarrow> phones_unique (store (run s evs))"
  by (induction s evs rule: run.induct) (simp_all add: step_phones_unique)

theorem run_phones_unique_witness:
  "phones_unique (store sample_state) \<and>
   phones_unique (store (run sample_state sample_events)) \<and>
   map phoneNumber (store (run sample_state sample_events)) = [''9123456780'']"
proof -
  have u: "phones_unique (store sample_state)"
    by (simp add: phones_unique_def sample_state_def)
  have m: "map phoneNumber (store (run sample_state sample_events)) = [''9123456780'']"
    by (simp add: sample_events_def sample_state_def chennai_def madurai_body_def
        salem_body_def sample_env_def sms_down_env_def subscribe_def unsubscribe_def
        findOne_def save_def test_10_digits_def isDigit_def messages_create_def
        subscribe_catch_def respond_def Let_def)
  from u m run_phones_unique [OF u, of sample_events] show ?thesis by blast
qed

section \<open>Looking up the weather\<close>

lemma fetch_response:
  "axios_get e (length (http_calls s)) l = AxiosResponse w \<Longrightarrow>
   fetchWeatherData e s l = (Inr w, s\<lparr>http_calls := http_calls s @ [l]\<rparr>)"
  by (simp add: fetchWeatherData_def Let_def)

lemma fetch_failure:
  "axios_get e (length (http_calls s)) l = AxiosFailure \<Longrightarrow>
   fetchWeatherData e s l =
     (Inl UpstreamError,
      s\<lparr>http_calls := http_calls s @ [l], console := console s @ [LogFetchError]\<rparr>)"
  by (simp add: fetchWeatherData_def Let_def)

lemma weather_finish_calls [simp]:
  "http_calls (snd (weather_finish e s w)) = http_calls s"
  by (simp add: weather_finish_def weather_catch_def split: sum.splits)

lemma weather_finish_404 [simp]:
  "status (fst (weather_finish e s w)) = 404 \<longleftrightarrow> not_found w"
  by (simp add: weather_finish_def weather_catch_def respond_def split: sum.splits)

lemma weather_city_failure:
  assumes "\<not> falsy (q_city q)" and "\<not> falsy (q_district q)"
    and "axios_get e (length (http_calls s)) (interp (q_city q) @ '',Tamil Nadu,India'')
           = AxiosFailure"
  shows "weather e s q =
           weather_catch UpstreamError
             (s\<lparr>http_calls := http_calls s @ [interp (q_city q) @ '',Tamil Nadu,India''],
                console := console s @ [LogFetchError]\<rparr>)"
  using assms by (simp add: weather_def fetch_failure)

lemma weather_city_found:
  assumes "\<not> falsy (q_city q)" and "\<not> falsy (q_district q)"
    and "axios_get e (length (http_calls s)) (interp (q_city q) @ '',Tamil Nadu,India'')
           = AxiosResponse w"
    and "\<not> not_found w"
  shows "weather e s q =
           weather_finish e
             (s\<lparr>http_calls := http_calls s @ [interp (q_city q) @ '',Tamil Nadu,India'']\<rparr>) w"
  using assms by (simp add: weather_def fetch_response)

lemma weather_district_failure:
  assumes "\<not> falsy (q_city q)" and "\<not> falsy (q_district q)"
    and "axios_get e (length (http_calls s)) (interp (q_city q) @ '',Tamil Nadu,India'')
           = AxiosResponse w"
    and "not_found w"
    and "axios_get e (Suc (length (http_calls s)))
           (interp (q_district q) @ '',Tamil Nadu,India'') = AxiosFailure"
  shows "weather e s q =
           weather_catch UpstreamError
             (s\<lparr>http_calls := http_calls s @ [interp (q_city q) @ '',Tamil Nadu,India'',
                                              interp (q_district q) @ '',Tamil Nadu,India''],
                console := console s @ [LogFetchError]\<rparr>)"
  using assms by (simp add: weather_def fetch_response fetch_failure)

lemma weather_district_response:
  assumes "\<not> falsy (q_city q)" and "\<not> falsy (q_district q)"
    and "axios_get e (length (http_calls s)) (interp (q_city q) @ '',Tamil Nadu,India'')
           = AxiosResponse w"
    and "not_found w"
    and "axios_get e (Suc (length (http_calls s)))
           (interp (q_district q) @ '',Tamil Nadu,India'') = AxiosResponse w'"
  shows "weather e s q =
           weather_finish e
             (s\<lparr>http_calls := http_calls s @ [interp (q_city q) @ '',Tamil Nadu,India'',
                                              interp (q_district q) @ '',Tamil Nadu,India'']\<rparr>)
             w'"
  using assms by (simp add: weather_def fetch_response)

lemma weather_catch_simps [simp]:
  "status (fst (weather_catch err s)) = 500"
  "body (fst (weather_catch err s)) = Thrown err"
  "http_calls (snd (weather_catch err s)) = http_calls s"
  by (simp_all add: weather_catch_def respond_def)








lemma not_found_error_payload: "not_found error_payload"
  by (simp add: not_found_def error_payload_def)


text \<open>
  Claim C2.  With city and district both present, GET /api/weather asks the provider for
  the city first.  It asks a second time, for the district, if and only if the first call
  returned a payload that is empty or carries an error code (\<open>not_found\<close>); so it makes
  one call or two, never more.  It answers 404 exactly when both calls returned such a
  payload.
\<close>

theorem weather_city_then_district:
  fixes e :: env and s :: state and q :: weather_query
  defines "n \<equiv> length (http_calls s)"
    and "cityLocation \<equiv> interp (q_city q) @ '',Tamil Nadu,India''"
    and "districtLocation \<equiv> interp (q_district q) @ '',Tamil Nadu,India''"
  assumes "\<not> falsy (q_city q)" and "\<not> falsy (q_district q)"
  shows "http_calls (snd (weather e s q)) =
           http_calls s @
             (if \<exists>w. axios_get e n cityLocation = AxiosResponse w \<and> not_found w
              then [cityLocation, districtLocation] else [cityLocation])
         \<and> length (http_calls (snd (weather e s q))) \<le> n + 2
         \<and> (status (fst (weather e s q)) = 404 \<longleftrightarrow>
              (\<exists>w w'. axios_get e n cityLocation = AxiosResponse w \<and> not_found w \<and>
                 axios_get e (Suc n) districtLocation = AxiosResponse w' \<and> not_found w'))"
proof (cases "axios_get e n cityLocation")
  case AxiosFailure
  then show ?thesis
    using assms weather_city_failure [of q e s] by simp
next
  case (AxiosResponse w)
  show ?thesis
  proof (cases "not_found w")
    case False
    with AxiosResponse show ?thesis
      using assms weather_city_found [of q e s w] by simp
  next
    case True
    show ?thesis
    proof (cases "axios_get e (Suc n) districtLocation")
      case AxiosFailure
      with AxiosResponse True show ?thesis
        using assms weather_district_failure [of q e s w] by simp
    next
      case (AxiosResponse w')
      with \<open>axios_get e n cityLocation = AxiosResponse w\<close> True show ?thesis
        using assms weather_district_response [of q e s w w'] by simp
    qed
  qed
qed

theorem weather_city_then_district_witness:
  "\<not> falsy (q_city unknown_query) \<and> \<not> falsy (q_district unknown_query) \<and>
   http_calls (snd (weather weather_env sample_state unknown_query)) =
     [''Atlantis,Tamil Nadu,India'', ''Lemuria,Tamil Nadu,India''] \<and>
   status (fst (weather weather_env sample_state unknown_query)) = 404"
proof -
  have 1: "\<not> falsy (q_city unknown_query)" "\<not> falsy (q_district unknown_query)"
    by (simp_all add: unknown_query_def)
  have 2: "axios_get weather_env n ''Atlantis,Tamil Nadu,India'' = AxiosResponse error_payload"
          "axios_get weather_env n ''Lemuria,Tamil Nadu,India'' = AxiosResponse error_payload"
    for n
    by (simp_all add: weather_env_def)
  show ?thesis
    using 1 weather_city_then_district [OF 1, of weather_env sample_state]
    by (simp add: 2 not_found_error_payload unknown_query_def sample_state_def)
qed

text \<open>
  Claim C9.  When the call for the city throws (axios rejects: network failure or a
  non-success status), GET /api/weather answers 500 at once; the only request made is the
  one for the city, whatever the provider would have answered for the district.
\<close>

theorem weather_city_throw_no_fallback:
  assumes "\<not> falsy (q_city q)" and "\<not> falsy (q_district q)"
    and "axios_get e (length (http_calls s)) (interp (q_city q) @ '',Tamil Nadu,India'')
           = AxiosFailure"
  shows "fst (weather e s q) = respond 500 (Thrown UpstreamError) \<and>
         http_calls (snd (weather e s q)) =
           http_calls s @ [interp (q_city q) @ '',Tamil Nadu,India'']"
  using assms by (simp add: weather_city_failure weather_catch_def)

theorem weather_city_throw_no_fallback_witness:
  "axios_get weather_env (Suc (length (http_calls sample_state)))
     (interp (q_district salem_query) @ '',Tamil Nadu,India'') = AxiosResponse chennai_payload \<and>
   \<not> not_found chennai_payload \<and>
   fst (weather weather_env sample_state salem_query) = respond 500 (Thrown UpstreamError) \<and>
   http_calls (snd (weather weather_env sample_state salem_query)) =
     [''Salem,Tamil Nadu,India'']"
proof -
  have 1: "\<not> falsy (q_city salem_query)" "\<not> falsy (q_district salem_query)"
    by (simp_all add: salem_query_def)
  have 2: "axios_get weather_env (length (http_calls sample_state))
             (interp (q_city salem_query) @ '',Tamil Nadu,India'') = AxiosFailure"
    by (simp add: weather_env_def salem_query_def)
  have 3: "axios_get weather_env (Suc (length (http_calls sample_state)))
     (interp (q_district salem_query) @ '',Tamil Nadu,India'') = AxiosResponse chennai_payload"
    by (simp add: weather_env_def salem_query_def)
  have 4: "\<not> not_found chennai_payload"
    by (simp add: not_found_def chennai_payload_def)
  show ?thesis
    using 3 4 weather_city_throw_no_fallback [OF 1 2]
    by (simp add: salem_query_def sample_state_def)
qed



section \<open>The tick of the scheduler\<close>

lemma alert_one_effects:
  fixes e :: env and s :: state and sub :: subscriber
  defines "location \<equiv> city sub @ '',Tamil Nadu,India''"
  shows "http_calls (alert_one e s sub) = http_calls s @ [location] \<and>
    (\<exists>new. console (alert_one e s sub) = console s @ new \<and>
       filter (\<lambda>x. x \<noteq> LogFetchError) new =
         [case axios_get e (length (http_calls s)) location of
            AxiosFailure \<Rightarrow> LogFailed (phoneNumber sub) UpstreamError
          | AxiosResponse w \<Rightarrow>
              (case bnd (getProp w ''currentConditions'') (alert_message e sub) of
                 Inl err \<Rightarrow> LogFailed (phoneNumber sub) err
               | Inr m \<Rightarrow>
                   if NODE_ENV e \<noteq> Some ''test'' \<and>
                      \<not> twilio_create e (length (sms_log s))
                          \<lparr>sms_body = m, sms_from = TWILIO_PHONE_NUMBER e,
                           sms_to = ''+91'' @ phoneNumber sub\<rparr>
                   then LogFailed (phoneNumber sub) DeliveryError
                   else LogSent (phoneNumber sub))])"
proof (cases "axios_get e (length (http_calls s)) location")
  case AxiosFailure
  then show ?thesis
    by (simp add: location_def alert_one_def alert_try_def fetchWeatherData_def Let_def)
next
  case (AxiosResponse w)
  then show ?thesis
    by (cases "bnd (getProp w ''currentConditions'') (alert_message e sub)")
       (simp_all add: location_def alert_one_def alert_try_def fetchWeatherData_def
          messages_create_def Let_def)
qed

lemma for_subscribers_calls:
  "http_calls (for_subscribers e s subs) =
     http_calls s @ map (\<lambda>sub. city sub @ '',Tamil Nadu,India'') subs"
  by (induction subs arbitrary: s) (simp_all add: alert_one_effects)

lemma for_subscribers_outcomes:
  "\<exists>new. console (for_subscribers e s subs) = console s @ new \<and>
     length (filter (\<lambda>x. x \<noteq> LogFetchError) new) = length subs \<and>
     (\<forall>i<length subs.
        filter (\<lambda>x. x \<noteq> LogFetchError) new ! i =
          (let sub = subs ! i; before = for_subscribers e s (take i subs) in
           case axios_get e (length (http_calls before)) (city sub @ '',Tamil Nadu,India'') of
             AxiosFailure \<Rightarrow> LogFailed (phoneNumber sub) UpstreamError
           | AxiosResponse w \<Rightarrow>
               (case bnd (getProp w ''currentConditions'') (alert_message e sub) of
                  Inl err \<Rightarrow> LogFailed (phoneNumber sub) err
                | Inr m \<Rightarrow>
                    if NODE_ENV e \<noteq> Some ''test'' \<and>
                       \<not> twilio_create e (length (sms_log before))
                           \<lparr>sms_body = m, sms_from = TWILIO_PHONE_NUMBER e,
                            sms_to = ''+91'' @ phoneNumber sub\<rparr>
                    then LogFailed (phoneNumber sub) DeliveryError
                    else LogSent (phoneNumber sub))))"
proof (induction subs arbitrary: s)
  case Nil
  then show ?case by simp
next
  case (Cons sub subs)
  let ?keep = "\<lambda>x. x \<noteq> LogFetchError"
  let ?entry = "\<lambda>before sub.
     case axios_get e (length (http_calls before)) (city sub @ '',Tamil Nadu,India'') of
             AxiosFailure \<Rightarrow> LogFailed (phoneNumber sub) UpstreamError
           | AxiosResponse w \<Rightarrow>
               (case bnd (getProp w ''currentConditions'') (alert_message e sub) of
                  Inl err \<Rightarrow> LogFailed (phoneNumber sub) err
                | Inr m \<Rightarrow>
                    if NODE_ENV e \<noteq> Some ''test'' \<and>
                       \<not> twilio_create e (length (sms_log before))
                           \<lparr>sms_body = m, sms_from = TWILIO_PHONE_NUMBER e,
                            sms_to = ''+91'' @ phoneNumber sub\<rparr>
                    then LogFailed (phoneNumber sub) DeliveryError
                    else LogSent (phoneNumber sub))"
  from alert_one_effects [of e s sub] obtain new1 where
    1: "console (alert_one e s sub) = console s @ new1"
       "filter ?keep new1 = [?entry s sub]"
    by blast
  from Cons.IH [of "alert_one e s sub"] obtain new2 where
    2: "console (for_subscribers e (alert_one e s sub) subs) =
          console (alert_one e s sub) @ new2"
       "length (filter ?keep new2) = length subs"
       "\<forall>i<length subs. filter ?keep new2 ! i =
           ?entry (for_subscribers e (alert_one e s sub) (take i subs)) (subs ! i)"
    unfolding Let_def by blast
  have a: "console (for_subscribers e s (sub # subs)) = console s @ (new1 @ new2)"
    using 1(1) 2(1) by simp
  have b: "length (filter ?keep (new1 @ new2)) = length (sub # subs)"
    using 1(2) 2(2) by simp
  have c: "filter ?keep (new1 @ new2) ! i =
             ?entry (for_subscribers e s (take i (sub # subs))) ((sub # subs) ! i)"
    if "i < length (sub # subs)" for i
  proof (cases i)
    case 0
    then have x: "(sub # subs) ! i = sub" "for_subscribers e s (take i (sub # subs)) = s"
      by simp_all
    from 0 1(2) have "filter ?keep (new1 @ new2) ! i = ?entry s sub" by simp
    then show ?thesis unfolding x .
  next
    case (Suc j)
    with that have j: "j < length subs" by simp
    from Suc have x: "(sub # subs) ! i = subs ! j"
      "for_subscribers e s (take i (sub # subs)) =
         for_subscribers e (alert_one e s sub) (take j subs)"
      by simp_all
    from Suc 1(2) have "filter ?keep (new1 @ new2) ! i = filter ?keep new2 ! j" by simp
    also from j 2(3) have "\<dots> =
           ?entry (for_subscribers e (alert_one e s sub) (take j subs)) (subs ! j)"
      by blast
    finally show ?thesis unfolding x .
  qed
  from a b c show ?case unfolding Let_def by blast
qed

text \<open>
  Claim C5.  A tick of the scheduler never throws: the body of the outer \<^verbatim>\<open>try\<close> returns
  normally and its last statement, the log of completion, is reached.  Whatever fails on
  the way, the weather of every subscriber is requested, in the order of the store, and the
  console holds one entry per subscriber, in that order, which records what happened to
  this subscriber: when the request for the weather fails, the failure with
  \<open>UpstreamError\<close>; when the payload cannot be read or printed, the failure with the
  error thrown; when the SMS provider rejects the message (outside the test mode), the
  failure with \<open>DeliveryError\<close>; otherwise that the alert was sent.  The entry of the
  \<open>i\<close>-th subscriber depends on the answer to the \<open>i\<close>-th request of this tick and on the
  number of messages handed over before, never on a failure of an earlier subscriber.
  (The weather client logs its own failures as well; they are the entries
  \<open>LogFetchError\<close>.)
\<close>

theorem hourly_job_isolates_failures:
  "fst (hourly_job_try e s) = Inr () \<and>
   hourly_job e s = snd (hourly_job_try e s) \<and>
   http_calls (hourly_job e s) =
     http_calls s @ map (\<lambda>sub. city sub @ '',Tamil Nadu,India'') (store s) \<and>
   (\<exists>new. console (hourly_job e s) =
             console s @ [LogStarting] @ new @ [LogCompleted (length (store s))] \<and>
      length (filter (\<lambda>x. x \<noteq> LogFetchError) new) = length (store s) \<and>
      (\<forall>i<length (store s).
         filter (\<lambda>x. x \<noteq> LogFetchError) new ! i =
           (let sub = store s ! i;
                before = for_subscribers e (s\<lparr>console := console s @ [LogStarting]\<rparr>)
                           (take i (store s))
            in case axios_get e (length (http_calls s) + i)
                      (city sub @ '',Tamil Nadu,India'') of
                 AxiosFailure \<Rightarrow> LogFailed (phoneNumber sub) UpstreamError
               | AxiosResponse w \<Rightarrow>
                   (case bnd (getProp w ''currentConditions'') (alert_message e sub) of
                      Inl err \<Rightarrow> LogFailed (phoneNumber sub) err
                    | Inr m \<Rightarrow>
                        if NODE_ENV e \<noteq> Some ''test'' \<and>
                           \<not> twilio_create e (length (sms_log before))
                               \<lparr>sms_body = m, sms_from = TWILIO_PHONE_NUMBER e,
                                sms_to = ''+91'' @ phoneNumber sub\<rparr>
                        then LogFailed (phoneNumber sub) DeliveryError
                        else LogSent (phoneNumber sub)))))"
proof -
  let ?s0 = "s\<lparr>console := console s @ [LogStarting]\<rparr>"
  let ?keep = "\<lambda>x. x \<noteq> LogFetchError"
  have t: "hourly_job_try e s =
     (Inr (), (for_subscribers e ?s0 (store s))
        \<lparr>console := console (for_subscribers e ?s0 (store s))
                      @ [LogCompleted (length (store s))]\<rparr>)"
    by (simp add: hourly_job_try_def Let_def)
  have j: "hourly_job e s = snd (hourly_job_try e s)"
    by (simp add: hourly_job_def t)
  have h: "http_calls (hourly_job e s) =
     http_calls s @ map (\<lambda>sub. city sub @ '',Tamil Nadu,India'') (store s)"
    by (simp add: j t for_subscribers_calls)
  have n: "length (http_calls (for_subscribers e ?s0 (take i (store s)))) =
             length (http_calls s) + i" if "i < length (store s)" for i
    using that by (simp add: for_subscribers_calls)
  from for_subscribers_outcomes [of e ?s0 "store s"] obtain new where
    o: "console (for_subscribers e ?s0 (store s)) = console ?s0 @ new"
       "length (filter ?keep new) = length (store s)"
       "\<forall>i<length (store s).
          filter ?keep new ! i =
          (let sub = store s ! i; before = for_subscribers e ?s0 (take i (store s)) in
           case axios_get e (length (http_calls before)) (city sub @ '',Tamil Nadu,India'') of
             AxiosFailure \<Rightarrow> LogFailed (phoneNumber sub) UpstreamError
           | AxiosResponse w \<Rightarrow>
               (case bnd (getProp w ''currentConditions'') (alert_message e sub) of
                  Inl err \<Rightarrow> LogFailed (phoneNumber sub) err
                | Inr m \<Rightarrow>
                    if NODE_ENV e \<noteq> Some ''test'' \<and>
                       \<not> twilio_create e (length (sms_log before))
                           \<lparr>sms_body = m, sms_from = TWILIO_PHONE_NUMBER e,
                            sms_to = ''+91'' @ phoneNumber sub\<rparr>
                    then LogFailed (phoneNumber sub) DeliveryError
                    else LogSent (phoneNumber sub)))"
    by auto
  have c: "console (hourly_job e s) =
             console s @ [LogStarting] @ new @ [LogCompleted (length (store s))]"
    using o(1) by (simp add: j t)
  from o(3) have p: "\<forall>i<length (store s).
         filter ?keep new ! i =
           (let sub = store s ! i;
                before = for_subscribers e ?s0 (take i (store s))
            in case axios_get e (length (http_calls s) + i)
                      (city sub @ '',Tamil Nadu,India'') of
                 AxiosFailure \<Rightarrow> LogFailed (phoneNumber sub) UpstreamError
               | AxiosResponse w \<Rightarrow>
                   (case bnd (getProp w ''currentConditions'') (alert_message e sub) of
                      Inl err \<Rightarrow> LogFailed (phoneNumber sub) err
                    | Inr m \<Rightarrow>
                        if NODE_ENV e \<noteq> Some ''test'' \<and>
                           \<not> twilio_create e (length (sms_log before))
                               \<lparr>sms_body = m, sms_from = TWILIO_PHONE_NUMBER e,
                                sms_to = ''+91'' @ phoneNumber sub\<rparr>
                        then LogFailed (phoneNumber sub) DeliveryError
                        else LogSent (phoneNumber sub)))"
    unfolding Let_def using n by simp
  from t j h c o(2) p show ?thesis by (intro conjI exI [of _ new]) simp_all
qed

theorem hourly_job_isolates_failures_witness:
  "fst (hourly_job_try alert_env five_subscribers) = Inr () \<and>
   http_calls (hourly_job alert_env five_subscribers) =
     [''Chennai,Tamil Nadu,India'', ''Salem,Tamil Nadu,India'', ''Chennai,Tamil Nadu,India'',
      ''Madurai,Tamil Nadu,India'', ''Chennai,Tamil Nadu,India''] \<and>
   console (hourly_job alert_env five_subscribers) =
     [LogStarting, LogSent ''9876543210'', LogFetchError,
      LogFailed ''9123456780'' UpstreamError, LogFailed ''9000000001'' DeliveryError,
      LogFailed ''9000000002'' TypeError, LogSent ''9000000003'', LogCompleted 5] \<and>
   map sms_to (sms_log (hourly_job alert_env five_subscribers)) =
     [''+919876543210'', ''+919000000001'', ''+919000000003'']"
proof -
  have c: "console (hourly_job alert_env five_subscribers) =
     [LogStarting, LogSent ''9876543210'', LogFetchError,
      LogFailed ''9123456780'' UpstreamError, LogFailed ''9000000001'' DeliveryError,
      LogFailed ''9000000002'' TypeError, LogSent ''9000000003'', LogCompleted 5]"
    by (simp add: hourly_job_def hourly_job_try_def five_subscribers_def chennai_def
        alert_one_def alert_try_def fetchWeatherData_def alert_env_def weather_env_def
        sample_env_def chennai_payload_def madurai_payload_def alert_message_def
        messages_create_def Let_def)
  have m: "map sms_to (sms_log (hourly_job alert_env five_subscribers)) =
     [''+919876543210'', ''+919000000001'', ''+919000000003'']"
    by (simp add: hourly_job_def hourly_job_try_def five_subscribers_def chennai_def
        alert_one_def alert_try_def fetchWeatherData_def alert_env_def weather_env_def
        sample_env_def chennai_payload_def madurai_payload_def alert_message_def
        messages_create_def Let_def)
  note t = hourly_job_isolates_failures [of alert_env five_subscribers]
  from t have r: "fst (hourly_job_try alert_env five_subscribers) = Inr ()"
    by blast
  from t have h: "http_calls (hourly_job alert_env five_subscribers) =
     http_calls five_subscribers
       @ map (\<lambda>sub. city sub @ '',Tamil Nadu,India'') (store five_subscribers)"
    by blast
  have l: "http_calls five_subscribers
       @ map (\<lambda>sub. city sub @ '',Tamil Nadu,India'') (store five_subscribers) =
     [''Chennai,Tamil Nadu,India'', ''Salem,Tamil Nadu,India'', ''Chennai,Tamil Nadu,India'',
      ''Madurai,Tamil Nadu,India'', ''Chennai,Tamil Nadu,India'']"
    by (simp add: five_subscribers_def chennai_def)
  from h l have "http_calls (hourly_job alert_env five_subscribers) =
     [''Chennai,Tamil Nadu,India'', ''Salem,Tamil Nadu,India'', ''Chennai,Tamil Nadu,India'',
      ''Madurai,Tamil Nadu,India'', ''Chennai,Tamil Nadu,India'']"
    by (rule trans)
  with r c m show ?thesis by blast
qed

end
